theory Spec2Isabelle
  imports Main
begin

section \<open>The payment callback handler of the webhook gateway\<close>

text \<open>
  The development embeds the Go package \<^verbatim>\<open>midtrans\<close> of the repository: the request
  type \<^verbatim>\<open>UpdateTransactionRequest\<close>, the helpers \<^verbatim>\<open>validateHeaders\<close> and
  \<^verbatim>\<open>writeJSONResponse\<close>, and the handler \<^verbatim>\<open>HandleTransactionUpdate\<close> with
  \<^verbatim>\<open>initializeTransactionGetter\<close>.

  The handler talks to four collaborators that live outside the repository (the payment
  provider's status lookup, the task service with \<^verbatim>\<open>GetOrderTask\<close> and
  \<^verbatim>\<open>UpdateOrderTask\<close>, and the order service with \<^verbatim>\<open>Get\<close>). They are modelled as
  arbitrary functions on an explicit world state \<open>'w\<close>: each call takes the world, returns
  an error or a result, and a new world. The handler threads the world through the calls in
  program order and records every call it makes in a trace, so that "which calls are made,
  in which order, with which arguments" is a property of the returned value.
\<close>

subsection \<open>Errors and log entries\<close>

datatype error =
    ErrContenTypeIsRequired
  | ErrInvalidContentType
  | ErrInvalidSignature
  | ErrInvalidStatusCode
  | ErrMarshallingUnsuccessful
  | ErrWriteToResponseUnsuccessful
  | ErrUnsupportedPaymentMethod
  | ErrInternalServerError
  | ErrInvalidOrder
  | Errorf string
  | ErrExternal string

text \<open>
  \<open>ErrInvalidOrder\<close> is \<^verbatim>\<open>payment.ErrInvalidOrder\<close>; \<open>Errorf\<close> is an error built by
  \<^verbatim>\<open>fmt.Errorf\<close>; \<open>ErrExternal\<close> stands for any error value returned by a collaborator.
  A log entry keeps the level, the attached error and the message of one logger call.
\<close>

datatype log_entry = LogErr error string | LogInfo string

subsection \<open>Data\<close>

record UpdateTransactionRequest =
  TransactionTime :: string
  TransactionStatus :: string
  TransactionID :: string
  StatusMessage :: string
  StatusCode :: string
  SignatureKey :: string
  SettlementTime :: string
  PaymentType :: string
  OrderID :: string
  MerchantID :: string
  GrossAmount :: string
  FraudStatus :: string
  Currency :: string

text \<open>
  The enumerations of the task and order protocol buffers. Only the members the package
  names are known; every other member is \<open>\<dots>_OTHER n\<close>. The \<open>UNSPECIFIED\<close> member is
  the zero value of the Go type.
\<close>

datatype OrderTaskType =
    ORDER_TASK_TYPE_UNSPECIFIED
  | ORDER_TASK_TYPE_PICKING
  | ORDER_TASK_TYPE_PACKING
  | ORDER_TASK_TYPE_SHIPPING
  | ORDER_TASK_TYPE_DELIVERY
  | ORDER_TASK_TYPE_PAYMENT
  | ORDER_TASK_TYPE_OTHER nat

datatype OrderTaskState =
    ORDER_TASK_STATE_UNSPECIFIED
  | ORDER_TASK_STATE_SUCCESS
  | ORDER_TASK_STATE_FAILED
  | ORDER_TASK_STATE_OTHER nat

datatype OrderState =
    ORDER_STATE_UNSPECIFIED
  | ORDER_STATE_PAID
  | ORDER_STATE_CANCELLED
  | ORDER_STATE_DONE
  | ORDER_STATE_OTHER nat

record OrderTask =
  TaskId :: string
  OrderId :: string
  TaskType :: OrderTaskType
  State :: OrderTaskState

record Order =
  Order_State :: OrderState

text \<open>The zero value \<^verbatim>\<open>&tpb.OrderTask{}\<close>.\<close>

definition OrderTask_zero :: OrderTask where
  "OrderTask_zero =
     \<lparr>TaskId = [], OrderId = [], TaskType = ORDER_TASK_TYPE_UNSPECIFIED,
      State = ORDER_TASK_STATE_UNSPECIFIED\<rparr>"

subsection \<open>Collaborators\<close>

text \<open>
  \<open>Get\<close> answers with \<open>None\<close> when the response carries no order: then
  \<^verbatim>\<open>getRes.GetOrderData().Order\<close> or \<^verbatim>\<open>order.State\<close> dereferences a nil pointer.
  The type of the authoritative transaction is declared in another module; by the
  specification it has the shape of the inbound notification, so the same record is used.
\<close>

record 'w TaskServiceClient =
  GetOrderTask :: "string \<Rightarrow> 'w \<Rightarrow> (error + OrderTask list) \<times> 'w"
  UpdateOrderTask :: "string \<Rightarrow> OrderTaskState \<Rightarrow> 'w \<Rightarrow> (error + unit) \<times> 'w"

record 'w OrderServiceClient =
  Get :: "string \<Rightarrow> 'w \<Rightarrow> (error + Order option) \<times> 'w"

record 'w TransactionGetter =
  GetTransactionStatus :: "string \<Rightarrow> 'w \<Rightarrow> (error + UpdateTransactionRequest) \<times> 'w"

record 'w Handler =
  serverKey :: string
  chargeURL :: string
  getStatusURL :: string
  orderService :: "'w OrderServiceClient"
  taskService :: "'w TaskServiceClient"

text \<open>
  What the package imports from other modules and from the Go library:
  the non-ASCII branch of \<^verbatim>\<open>strings.ToLower\<close>, the provider's keyed hash behind
  \<^verbatim>\<open>auth.ValidateCallbackSignature\<close>, the two payment-method constants, and the
  constructor \<^verbatim>\<open>transaction.NewTransaction\<close> (charge URL, status URL, server key).
\<close>

record 'w externals =
  unicode_ToLower :: "string \<Rightarrow> string"
  keyed_hash :: "string \<Rightarrow> string \<Rightarrow> string \<Rightarrow> string \<Rightarrow> string"
  PaymentMethod_Gopay :: string
  PaymentMethod_VirtualAccount :: string
  NewTransaction :: "string \<Rightarrow> string \<Rightarrow> string \<Rightarrow> error + 'w TransactionGetter"

subsection \<open>HTTP request, response, and the state of one run\<close>

text \<open>
  \<open>ContentType\<close> is \<^verbatim>\<open>r.Header.Get("Content-Type")\<close> (empty when the header is absent);
  \<open>Body\<close> is the outcome of decoding the JSON body, \<open>None\<close> when decoding fails.
\<close>

record http_request =
  Method :: string
  ContentType :: string
  Body :: "UpdateTransactionRequest option"

record http_response =
  resp_ContentType :: string
  resp_code :: nat

datatype call =
    CallGetTransactionStatus string
  | CallGetOrderTask string
  | CallGet string
  | CallUpdateOrderTask string OrderTaskState

record 'w run =
  calls :: "call list"
  failed :: "call list"
  logs :: "log_entry list"
  world :: 'w
  response :: "http_response option"
  panicked :: bool

definition MethodPost :: string where "MethodPost = ''POST''"
definition StatusOK :: nat where "StatusOK = 200"
definition StatusBadRequest :: nat where "StatusBadRequest = 400"
definition StatusInternalServerError :: nat where "StatusInternalServerError = 500"

definition PendingTransactionStatus :: string where "PendingTransactionStatus = ''pending''"
definition AuthorizedTransactionStatus :: string where "AuthorizedTransactionStatus = ''authorized''"
definition CaptureTransactionStatus :: string where "CaptureTransactionStatus = ''capture''"
definition SettlementTransactionStatus :: string where "SettlementTransactionStatus = ''settlement''"
definition DenyTransactionStatus :: string where "DenyTransactionStatus = ''deny''"
definition CancelTransactionStatus :: string where "CancelTransactionStatus = ''cancel''"
definition RefundTransactionStatus :: string where "RefundTransactionStatus = ''refund''"
definition PartialRefundTransactionStatus :: string where "PartialRefundTransactionStatus = ''partial_refund''"
definition ChargebackTransactionStatus :: string where "ChargebackTransactionStatus = ''chargeback''"
definition PartialChargebackTransactionStatus :: string where
  "PartialChargebackTransactionStatus = ''partial_chargeback''"
definition ExpireTransactionStatus :: string where "ExpireTransactionStatus = ''expire''"
definition FailureTransactionStatus :: string where "FailureTransactionStatus = ''failure''"
definition FraudStatusAccept :: string where "FraudStatusAccept = ''accept''"

definition init_run :: "'w \<Rightarrow> 'w run" where
  "init_run w =
     \<lparr>calls = [], failed = [], logs = [], world = w, response = None, panicked = False\<rparr>"

definition log_err :: "error \<Rightarrow> string \<Rightarrow> 'w run \<Rightarrow> 'w run" where
  "log_err e msg s = s\<lparr>logs := logs s @ [LogErr e msg]\<rparr>"

definition log_info :: "string \<Rightarrow> 'w run \<Rightarrow> 'w run" where
  "log_info msg s = s\<lparr>logs := logs s @ [LogInfo msg]\<rparr>"

text \<open>
  One collaborator call: the call is recorded in \<open>calls\<close>, and also in \<open>failed\<close> when
  it returns an error; the world is replaced by the one the collaborator returns.
\<close>

definition perform ::
  "call \<Rightarrow> ('w \<Rightarrow> (error + 'a) \<times> 'w) \<Rightarrow> 'w run \<Rightarrow> (error + 'a) \<times> 'w run" where
  "perform c f s =
     (case f (world s) of
        (res, w') \<Rightarrow>
          (res, s\<lparr>calls := calls s @ [c],
                   failed := (if isl res then failed s @ [c] else failed s),
                   world := w'\<rparr>))"

subsection \<open>Library and helper functions\<close>

text \<open>
  \<^verbatim>\<open>strings.ToLower\<close>: on a string of ASCII bytes only, the letters \<open>A\<close> to \<open>Z\<close> are
  shifted to lower case and every other byte is kept; any other string is mapped rune by
  rune through the Unicode tables, which are a parameter here.
\<close>

definition isASCII :: "string \<Rightarrow> bool" where
  "isASCII s = list_all (\<lambda>c. (of_char c :: nat) < 128) s"

definition lower_byte :: "char \<Rightarrow> char" where
  "lower_byte c =
     (if 65 \<le> (of_char c :: nat) \<and> (of_char c :: nat) \<le> 90
      then char_of ((of_char c :: nat) + 32) else c)"

definition ToLower :: "'w externals \<Rightarrow> string \<Rightarrow> string" where
  "ToLower ext s = (if isASCII s then map lower_byte s else unicode_ToLower ext s)"

text \<open>
  Modelled from the spec: \<^verbatim>\<open>auth.ValidateCallbackSignature\<close> belongs to another module
  and its source is not part of the repository. By the specification it recomputes the
  expected signature, the keyed hash of the order id, the status code, the gross amount and
  the server key, and rejects on mismatch. The hash itself is a parameter.
\<close>

definition ValidateCallbackSignature ::
  "'w externals \<Rightarrow> string \<Rightarrow> string \<Rightarrow> string \<Rightarrow> string \<Rightarrow> string \<Rightarrow> error option" where
  "ValidateCallbackSignature ext signatureKey orderId statusCode grossAmount key =
     (if signatureKey = keyed_hash ext orderId statusCode grossAmount key then None
      else Some ErrInvalidSignature)"

definition validateHeaders :: "string \<Rightarrow> error option" where
  "validateHeaders ct =
     (if ct = [] then Some ErrContenTypeIsRequired
      else if ct \<noteq> ''application/json'' then Some ErrInvalidContentType
      else None)"

definition writeJSONResponse :: "nat \<Rightarrow> 'w run \<Rightarrow> 'w run" where
  "writeJSONResponse code s =
     s\<lparr>response := Some \<lparr>resp_ContentType = ''application/json'', resp_code = code\<rparr>\<rparr>"

definition initializeTransactionGetter ::
  "'w Handler \<Rightarrow> 'w externals \<Rightarrow> UpdateTransactionRequest \<Rightarrow> 'w run
     \<Rightarrow> (error + 'w TransactionGetter) \<times> 'w run" where
  "initializeTransactionGetter h ext req s =
     (if PaymentType req = PaymentMethod_Gopay ext
         \<or> PaymentType req = PaymentMethod_VirtualAccount ext
      then (case NewTransaction ext (chargeURL h) (getStatusURL h) (serverKey h) of
              Inl err \<Rightarrow> (Inl err, log_err ErrInternalServerError ''error initialize transactionGetter'' s)
            | Inr g \<Rightarrow> (Inr g, s))
      else (Inl ErrUnsupportedPaymentMethod,
            log_err ErrUnsupportedPaymentMethod ''invalid payment type'' s))"

text \<open>The loop over \<^verbatim>\<open>tasks.Tasks\<close>: the first task of type payment, else the zero task.\<close>

primrec select_payment_task :: "OrderTask list \<Rightarrow> OrderTask" where
  "select_payment_task [] = OrderTask_zero"
| "select_payment_task (t # ts) =
     (if TaskType t = ORDER_TASK_TYPE_PAYMENT then t else select_payment_task ts)"

text \<open>The closure \<^verbatim>\<open>updateFn\<close>: one \<^verbatim>\<open>UpdateOrderTask\<close> call on the resolved task.\<close>

definition updateFn ::
  "'w Handler \<Rightarrow> OrderTask \<Rightarrow> OrderTaskState \<Rightarrow> 'w run \<Rightarrow> error option \<times> 'w run" where
  "updateFn h orderTask st s =
     (case perform (CallUpdateOrderTask (TaskId orderTask) st)
             (UpdateOrderTask (taskService h) (TaskId orderTask) st)
             (log_info ''updating order task'' s) of
        (Inl err, s') \<Rightarrow> (Some err, s')
      | (Inr u, s') \<Rightarrow> (None, log_info ''successfully updating order task'' s'))"

subsection \<open>The handler\<close>

text \<open>
  The final \<^verbatim>\<open>switch\<close> on the authoritative transaction status, up to the end of the
  handler.
\<close>

definition HandleTransactionUpdate_switch ::
  "'w Handler \<Rightarrow> 'w externals \<Rightarrow> UpdateTransactionRequest \<Rightarrow> OrderTask \<Rightarrow> 'w run \<Rightarrow> 'w run" where
  "HandleTransactionUpdate_switch h ext trx orderTask s =
     (let status = ToLower ext (TransactionStatus trx);
          done = (\<lambda>s'. writeJSONResponse StatusOK
                    (log_info ''successfully processing update transaction status request'' s'))
      in
      if status = CaptureTransactionStatus \<or> status = SettlementTransactionStatus then
        (case (if FraudStatus trx \<noteq> [] \<and> ToLower ext (FraudStatus trx) \<noteq> FraudStatusAccept
               then updateFn h orderTask ORDER_TASK_STATE_FAILED s
               else (None, s)) of
           (Some err, s1) \<Rightarrow>
             writeJSONResponse StatusInternalServerError
               (log_err err ''failed to update failed task'' s1)
         | (None, s1) \<Rightarrow>
             (case updateFn h orderTask ORDER_TASK_STATE_SUCCESS s1 of
                (Some err, s2) \<Rightarrow>
                  writeJSONResponse StatusInternalServerError
                    (log_err err ''failed to update success task'' s2)
              | (None, s2) \<Rightarrow> done s2))
      else if status = ExpireTransactionStatus \<or> status = FailureTransactionStatus
              \<or> status = CancelTransactionStatus \<or> status = DenyTransactionStatus then
        (case updateFn h orderTask ORDER_TASK_STATE_FAILED s of
           (Some err, s1) \<Rightarrow>
             writeJSONResponse StatusInternalServerError
               (log_err err ''failed to update failed task'' s1)
         | (None, s1) \<Rightarrow> done s1)
      else done s)"

text \<open>
  The handler from \<^verbatim>\<open>validateHeaders\<close> to the order-state guard. \<open>Inl\<close> is a run that
  has returned; \<open>Inr\<close> carries the authoritative transaction, the resolved task and the
  state with which the final \<^verbatim>\<open>switch\<close> is entered.
\<close>

definition HandleTransactionUpdate_guards ::
  "'w Handler \<Rightarrow> 'w externals \<Rightarrow> http_request \<Rightarrow> 'w run
     \<Rightarrow> 'w run + (UpdateTransactionRequest \<times> OrderTask \<times> 'w run)" where
  "HandleTransactionUpdate_guards h ext r s =
     (case validateHeaders (ContentType r) of
        Some err \<Rightarrow> Inl (writeJSONResponse StatusBadRequest s)
      | None \<Rightarrow>
     (case Body r of
        None \<Rightarrow>
          Inl (writeJSONResponse StatusBadRequest
                 (log_err (ErrExternal ''json'') ''failed to decode request data'' s))
      | Some req \<Rightarrow>
     (case ValidateCallbackSignature ext (SignatureKey req) (OrderID req) (StatusCode req)
             (GrossAmount req) (serverKey h) of
        Some err \<Rightarrow>
          Inl (writeJSONResponse StatusBadRequest
                 (log_err ErrInvalidSignature ''invalid callbak signature'' s))
      | None \<Rightarrow>
     if ToLower ext (TransactionStatus req) = PendingTransactionStatus
     then Inl (writeJSONResponse StatusOK s)
     else
     (case initializeTransactionGetter h ext req s of
        (Inl err, s1) \<Rightarrow> Inl (writeJSONResponse StatusInternalServerError s1)
      | (Inr transactionGetter, s1) \<Rightarrow>
     (case perform (CallGetTransactionStatus (OrderID req))
             (GetTransactionStatus transactionGetter (OrderID req)) s1 of
        (Inl err, s2) \<Rightarrow>
          Inl (writeJSONResponse StatusBadRequest
                 (log_err err ''failed to get transaction from midtrans API'' s2))
      | (Inr trx, s2) \<Rightarrow>
     (case perform (CallGetOrderTask (OrderID req))
             (GetOrderTask (taskService h) (OrderID req)) s2 of
        (Inl err, s3) \<Rightarrow>
          Inl (writeJSONResponse StatusInternalServerError (log_err err ''invalid task'' s3))
      | (Inr tasks, s3) \<Rightarrow>
     (let orderTask = select_payment_task tasks in
      if State orderTask = ORDER_TASK_STATE_SUCCESS
      then Inl (writeJSONResponse StatusOK
                  (log_info ''order task is already marked successfull, ignoring'' s3))
      else
     (case perform (CallGet (OrderId orderTask))
             (Get (orderService h) (OrderId orderTask)) s3 of
        (Inl err, s4) \<Rightarrow>
          Inl (writeJSONResponse StatusInternalServerError (log_err err ''invalid order'' s4))
      | (Inr None, s4) \<Rightarrow> Inl (s4\<lparr>panicked := True\<rparr>)
      | (Inr (Some order), s4) \<Rightarrow>
          if Order_State order = ORDER_STATE_PAID
             \<or> Order_State order = ORDER_STATE_CANCELLED
             \<or> Order_State order = ORDER_STATE_DONE
          then Inl (writeJSONResponse StatusBadRequest
                      (log_err ErrInvalidOrder ''invalid order state'' s4))
          else Inr (trx, orderTask, s4)))))))))"

text \<open>
  The method check at the head of the handler: it logs and does not return.
\<close>

definition method_check :: "http_request \<Rightarrow> 'w run \<Rightarrow> 'w run" where
  "method_check r s =
     (if Method r \<noteq> MethodPost
      then log_err (Errorf (''expecting http method post, got: '' @ Method r)) [] s
      else s)"

text \<open>
  The whole handler: the method check, then the guards, then the switch.
\<close>

definition HandleTransactionUpdate ::
  "'w Handler \<Rightarrow> 'w externals \<Rightarrow> http_request \<Rightarrow> 'w \<Rightarrow> 'w run" where
  "HandleTransactionUpdate h ext r w =
     (case HandleTransactionUpdate_guards h ext r (method_check r (init_run w)) of
        Inl finished \<Rightarrow> finished
      | Inr (trx, orderTask, s) \<Rightarrow> HandleTransactionUpdate_switch h ext trx orderTask s)"

text \<open>The \<^verbatim>\<open>UpdateOrderTask\<close> calls of a trace, and the status code written.\<close>

fun is_update :: "call \<Rightarrow> bool" where
  "is_update (CallUpdateOrderTask t st) = True"
| "is_update c = False"

definition updates :: "'w run \<Rightarrow> call list" where
  "updates s = filter is_update (calls s)"

definition status_code :: "'w run \<Rightarrow> nat option" where
  "status_code s = map_option resp_code (response s)"


subsection \<open>Vocabulary of the specification\<close>

text \<open>
  A request reaches the status classification when the guards hand over to the switch,
  with the authoritative transaction, the resolved task and the state of the run so far.
\<close>

definition reaches_classification ::
  "'w Handler \<Rightarrow> 'w externals \<Rightarrow> http_request \<Rightarrow> 'w
     \<Rightarrow> UpdateTransactionRequest \<Rightarrow> OrderTask \<Rightarrow> 'w run \<Rightarrow> bool" where
  "reaches_classification h ext r w trx orderTask s =
     (HandleTransactionUpdate_guards h ext r (method_check r (init_run w))
        = Inr (trx, orderTask, s))"

text \<open>
  The fraud path: the authoritative status is capture or settlement, and the fraud status
  is present and is not accept, both compared after lower-casing as the switch does.
\<close>

definition fraud_path :: "'w externals \<Rightarrow> UpdateTransactionRequest \<Rightarrow> bool" where
  "fraud_path ext trx =
     ((ToLower ext (TransactionStatus trx) = CaptureTransactionStatus
        \<or> ToLower ext (TransactionStatus trx) = SettlementTransactionStatus)
      \<and> FraudStatus trx \<noteq> []
      \<and> ToLower ext (FraudStatus trx) \<noteq> FraudStatusAccept)"

text \<open>Whether a collaborator call made in world \<open>w\<close> returns without an error.\<close>

definition succeeds :: "('w \<Rightarrow> (error + 'a) \<times> 'w) \<Rightarrow> 'w \<Rightarrow> bool" where
  "succeeds f w = (\<not> isl (fst (f w)))"

text \<open>Putting one more entry in front of the log of a run.\<close>

definition prepend_log :: "log_entry \<Rightarrow> 'w run \<Rightarrow> 'w run" where
  "prepend_log l s = s\<lparr>logs := l # logs s\<rparr>"

subsection \<open>A concrete deployment for examples\<close>

text \<open>
  The example world is a counter of the task-state writes that the task service has
  accepted. The example hash joins its arguments with bars; it stands in for the
  provider's hash only to make the examples computable. The notification is for task
  \<open>T1\<close>, paid by e-wallet; the parameters are its transaction status and fraud status.
\<close>

definition example_request :: "string \<Rightarrow> string \<Rightarrow> UpdateTransactionRequest" where
  "example_request status fraud =
     \<lparr>TransactionTime = ''2022-06-21 14:10:26'', TransactionStatus = status,
      TransactionID = ''tx-1'', StatusMessage = ''ok'', StatusCode = ''200'',
      SignatureKey = ''T1|200|10000.00|server-key'', SettlementTime = [],
      PaymentType = ''gopay'', OrderID = ''T1'', MerchantID = ''M1'',
      GrossAmount = ''10000.00'', FraudStatus = fraud, Currency = ''IDR''\<rparr>"

text \<open>The provider client; the parameter is what the status lookup answers.\<close>

definition example_getter :: "(error + UpdateTransactionRequest) \<Rightarrow> nat TransactionGetter" where
  "example_getter lookup = \<lparr>GetTransactionStatus = (\<lambda>oid w. (lookup, w))\<rparr>"

definition example_ext :: "(error + UpdateTransactionRequest) \<Rightarrow> nat externals" where
  "example_ext lookup =
     \<lparr>unicode_ToLower = (\<lambda>s. s),
      keyed_hash = (\<lambda>orderId statusCode grossAmount key.
                      orderId @ ''|'' @ statusCode @ ''|'' @ grossAmount @ ''|'' @ key),
      PaymentMethod_Gopay = ''gopay'',
      PaymentMethod_VirtualAccount = ''bank_transfer'',
      NewTransaction = (\<lambda>charge status key. Inr (example_getter lookup))\<rparr>"

text \<open>A delivery task and the payment task \<open>T1\<close> of order \<open>O1\<close>, in the given state.\<close>

definition example_tasks :: "OrderTaskState \<Rightarrow> OrderTask list" where
  "example_tasks st =
     [\<lparr>TaskId = ''T0'', OrderId = ''O1'', TaskType = ORDER_TASK_TYPE_DELIVERY,
       State = ORDER_TASK_STATE_UNSPECIFIED\<rparr>,
      \<lparr>TaskId = ''T1'', OrderId = ''O1'', TaskType = ORDER_TASK_TYPE_PAYMENT, State = st\<rparr>]"

text \<open>
  The handler; the parameters are what \<^verbatim>\<open>GetOrderTask\<close> and \<^verbatim>\<open>Get\<close> answer, and which
  target states \<^verbatim>\<open>UpdateOrderTask\<close> accepts (it fails on the others).
\<close>

definition example_handler ::
  "(error + OrderTask list) \<Rightarrow> (error + Order option) \<Rightarrow> (OrderTaskState \<Rightarrow> bool)
     \<Rightarrow> nat Handler" where
  "example_handler tasks order accepts =
     \<lparr>serverKey = ''server-key'', chargeURL = ''http://localhost/charge-url'',
      getStatusURL = ''http://localhost/status'',
      orderService = \<lparr>Get = (\<lambda>oid w. (order, w))\<rparr>,
      taskService =
        \<lparr>GetOrderTask = (\<lambda>tid w. (tasks, w)),
         UpdateOrderTask = (\<lambda>tid st w. if accepts st then (Inr (), Suc w)
                                        else (Inl (ErrExternal ''unavailable''), w))\<rparr>\<rparr>"

definition example_http :: "string \<Rightarrow> UpdateTransactionRequest \<Rightarrow> http_request" where
  "example_http m req = \<lparr>Method = m, ContentType = ''application/json'', Body = Some req\<rparr>"

text \<open>
  The payment task as \<^verbatim>\<open>GetOrderTask\<close> returns it while the payment is still open, an
  order that is not in a terminal state, and the handler on top of a task service that
  accepts every write (\<open>up\<close>) or refuses every write (\<open>down\<close>).
\<close>

definition example_ongoing :: OrderTaskState where
  "example_ongoing = ORDER_TASK_STATE_OTHER 1"

definition example_task :: OrderTask where
  "example_task =
     \<lparr>TaskId = ''T1'', OrderId = ''O1'', TaskType = ORDER_TASK_TYPE_PAYMENT,
      State = example_ongoing\<rparr>"

definition example_order :: Order where
  "example_order = \<lparr>Order_State = ORDER_STATE_OTHER 1\<rparr>"

definition example_handler_up :: "nat Handler" where
  "example_handler_up =
     example_handler (Inr (example_tasks example_ongoing)) (Inr (Some example_order))
       (\<lambda>st. True)"

definition example_handler_down :: "nat Handler" where
  "example_handler_down =
     example_handler (Inr (example_tasks example_ongoing)) (Inr (Some example_order))
       (\<lambda>st. False)"

text \<open>The state of the example run when it enters the switch: the three lookups are done.\<close>

definition example_at_switch :: "nat run" where
  "example_at_switch =
     \<lparr>calls = [CallGetTransactionStatus ''T1'', CallGetOrderTask ''T1'', CallGet ''O1''],
      failed = [], logs = [], world = 0, response = None, panicked = False\<rparr>"

section \<open>Properties of the handler\<close>

subsection \<open>Auxiliary facts\<close>

text \<open>The equations that evaluate the handler on a concrete request.\<close>

lemmas example_defs = example_request_def example_getter_def example_ext_def
  example_tasks_def example_handler_def example_http_def example_ongoing_def
  example_task_def example_order_def example_handler_up_def example_handler_down_def
  example_at_switch_def

lemmas eval_defs = HandleTransactionUpdate_def HandleTransactionUpdate_guards_def
  HandleTransactionUpdate_switch_def method_check_def init_run_def validateHeaders_def
  ValidateCallbackSignature_def ToLower_def isASCII_def lower_byte_def
  initializeTransactionGetter_def perform_def updateFn_def log_err_def log_info_def
  writeJSONResponse_def status_code_def updates_def succeeds_def Let_def
  reaches_classification_def fraud_path_def
  MethodPost_def StatusOK_def StatusBadRequest_def StatusInternalServerError_def
  PendingTransactionStatus_def CaptureTransactionStatus_def SettlementTransactionStatus_def
  DenyTransactionStatus_def CancelTransactionStatus_def ExpireTransactionStatus_def
  FailureTransactionStatus_def FraudStatusAccept_def

text \<open>Lower-casing of the status strings used in the examples, one of them in upper case.\<close>

lemma ToLower_examples:
  "ToLower ext ''EXPIRE'' = ''expire''"
  "ToLower ext ''settlement'' = ''settlement''"
proof -
  have a: "isASCII ''EXPIRE''" by (simp add: isASCII_def)
  have b: "map lower_byte ''EXPIRE'' = ''expire''" by code_simp
  show "ToLower ext ''EXPIRE'' = ''expire''"
    unfolding ToLower_def using a b by simp
  show "ToLower ext ''settlement'' = ''settlement''"
    by (simp add: ToLower_def isASCII_def lower_byte_def)
qed

lemmas eval_defs_lower = HandleTransactionUpdate_def HandleTransactionUpdate_guards_def
  HandleTransactionUpdate_switch_def method_check_def init_run_def validateHeaders_def
  ValidateCallbackSignature_def ToLower_examples
  initializeTransactionGetter_def perform_def updateFn_def log_err_def log_info_def
  writeJSONResponse_def status_code_def updates_def succeeds_def Let_def
  reaches_classification_def fraud_path_def
  MethodPost_def StatusOK_def StatusBadRequest_def StatusInternalServerError_def
  PendingTransactionStatus_def CaptureTransactionStatus_def SettlementTransactionStatus_def
  DenyTransactionStatus_def CancelTransactionStatus_def ExpireTransactionStatus_def
  FailureTransactionStatus_def FraudStatusAccept_def

text \<open>The run starts with no call made, whatever the method check logged.\<close>

lemma start_calls:
  "calls (method_check r (init_run w)) = []"
  "world (method_check r (init_run w)) = w"
  "failed (method_check r (init_run w)) = []"
  "response (method_check r (init_run w)) = None"
  "panicked (method_check r (init_run w)) = False"
  by (simp_all add: init_run_def log_err_def method_check_def)

lemma method_check_Body: "method_check (r\<lparr>Body := b\<rparr>) s = method_check r s"
  by (simp add: method_check_def)

text \<open>A collaborator call, with the pair taken apart.\<close>

lemma perform_alt:
  "perform c f s =
     (fst (f (world s)),
      s\<lparr>calls := calls s @ [c],
        failed := (case fst (f (world s)) of Inl e \<Rightarrow> failed s @ [c] | Inr v \<Rightarrow> failed s),
        world := snd (f (world s))\<rparr>)"
  by (simp add: perform_def split: prod.split sum.split)

text \<open>\<^verbatim>\<open>updateFn\<close> according to whether the write succeeds.\<close>

lemma updateFn_cases:
  "updateFn h ot st s =
     (if succeeds (UpdateOrderTask (taskService h) (TaskId ot) st) (world s)
      then (None, s\<lparr>calls := calls s @ [CallUpdateOrderTask (TaskId ot) st],
              logs := logs s @ [LogInfo ''updating order task'', LogInfo ''successfully updating order task''],
              world := snd (UpdateOrderTask (taskService h) (TaskId ot) st (world s))\<rparr>)
      else (Some (projl (fst (UpdateOrderTask (taskService h) (TaskId ot) st (world s)))),
            s\<lparr>calls := calls s @ [CallUpdateOrderTask (TaskId ot) st],
              failed := failed s @ [CallUpdateOrderTask (TaskId ot) st],
              logs := logs s @ [LogInfo ''updating order task''],
              world := snd (UpdateOrderTask (taskService h) (TaskId ot) st (world s))\<rparr>))"
  by (cases "UpdateOrderTask (taskService h) (TaskId ot) st (world s)")
     (auto simp add: updateFn_def perform_def log_info_def succeeds_def split: sum.splits)

lemma initializeTransactionGetter_ok:
  "PaymentType req = PaymentMethod_Gopay ext \<or> PaymentType req = PaymentMethod_VirtualAccount ext \<Longrightarrow>
   NewTransaction ext (chargeURL h) (getStatusURL h) (serverKey h) = Inr g \<Longrightarrow>
   initializeTransactionGetter h ext req s = (Inr g, s)"
  by (simp add: initializeTransactionGetter_def)

text \<open>
  The repository's own test: a signed notification that is not pending and has an
  unsupported payment type is answered with 500, before any call.
\<close>

lemma unsupported_payment_type:
  assumes "validateHeaders (ContentType r) = None"
    and "Body r = Some req"
    and "ValidateCallbackSignature ext (SignatureKey req) (OrderID req) (StatusCode req)
           (GrossAmount req) (serverKey h) = None"
    and "ToLower ext (TransactionStatus req) \<noteq> PendingTransactionStatus"
    and "PaymentType req \<noteq> PaymentMethod_Gopay ext"
    and "PaymentType req \<noteq> PaymentMethod_VirtualAccount ext"
  shows "status_code (HandleTransactionUpdate h ext r w) = Some StatusInternalServerError
       \<and> calls (HandleTransactionUpdate h ext r w) = []"
  using assms
  by (simp add: HandleTransactionUpdate_def HandleTransactionUpdate_guards_def
      initializeTransactionGetter_def status_code_def writeJSONResponse_def log_err_def
      start_calls)

text \<open>The path through all guards, written out.\<close>

lemma guards_reach:
  assumes "validateHeaders (ContentType r) = None"
    and "Body r = Some req"
    and "ValidateCallbackSignature ext (SignatureKey req) (OrderID req) (StatusCode req)
           (GrossAmount req) (serverKey h) = None"
    and "ToLower ext (TransactionStatus req) \<noteq> PendingTransactionStatus"
    and "PaymentType req = PaymentMethod_Gopay ext \<or> PaymentType req = PaymentMethod_VirtualAccount ext"
    and "NewTransaction ext (chargeURL h) (getStatusURL h) (serverKey h) = Inr g"
    and "GetTransactionStatus g (OrderID req) (world s) = (Inr trx, w1)"
    and "GetOrderTask (taskService h) (OrderID req) w1 = (Inr tasks, w2)"
    and "State (select_payment_task tasks) \<noteq> ORDER_TASK_STATE_SUCCESS"
    and "Get (orderService h) (OrderId (select_payment_task tasks)) w2 = (Inr (Some order), w3)"
    and "Order_State order \<noteq> ORDER_STATE_PAID" "Order_State order \<noteq> ORDER_STATE_CANCELLED"
        "Order_State order \<noteq> ORDER_STATE_DONE"
  shows "HandleTransactionUpdate_guards h ext r s =
     Inr (trx, select_payment_task tasks,
          s\<lparr>calls := calls s @ [CallGetTransactionStatus (OrderID req), CallGetOrderTask (OrderID req),
                                CallGet (OrderId (select_payment_task tasks))],
            world := w3\<rparr>)"
  using assms
  by (simp add: HandleTransactionUpdate_guards_def Let_def
      initializeTransactionGetter_ok perform_def)

text \<open>Whenever the guards hand over to the switch, exactly the three lookups have been made.\<close>

lemma guards_Inr_calls:
  assumes "HandleTransactionUpdate_guards h ext r s = Inr (trx, ot, s')"
  shows "\<exists>req. Body r = Some req
             \<and> calls s' = calls s @ [CallGetTransactionStatus (OrderID req),
                                   CallGetOrderTask (OrderID req), CallGet (OrderId ot)]
             \<and> failed s' = failed s \<and> response s' = response s \<and> panicked s' = panicked s"
  using assms
  by (auto simp add: HandleTransactionUpdate_guards_def Let_def perform_def
      initializeTransactionGetter_def log_err_def
      split: option.splits if_splits sum.splits prod.splits)

lemma reach_state:
  assumes "reaches_classification h ext r w trx ot s"
  shows "\<exists>req. Body r = Some req
             \<and> calls s = [CallGetTransactionStatus (OrderID req),
                          CallGetOrderTask (OrderID req), CallGet (OrderId ot)]
             \<and> failed s = [] \<and> response s = None \<and> panicked s = False"
  using guards_Inr_calls[OF assms[unfolded reaches_classification_def]]
  by (simp add: start_calls)

lemma handler_at_switch:
  "reaches_classification h ext r w trx ot s \<Longrightarrow>
   HandleTransactionUpdate h ext r w = HandleTransactionUpdate_switch h ext trx ot s"
  by (simp add: reaches_classification_def HandleTransactionUpdate_def)


text \<open>The three arms of the switch.\<close>

lemma switch_success:
  assumes "ToLower ext (TransactionStatus trx) = SettlementTransactionStatus
           \<or> ToLower ext (TransactionStatus trx) = CaptureTransactionStatus"
    and "FraudStatus trx = [] \<or> ToLower ext (FraudStatus trx) = FraudStatusAccept"
  shows "calls (HandleTransactionUpdate_switch h ext trx ot s)
           = calls s @ [CallUpdateOrderTask (TaskId ot) ORDER_TASK_STATE_SUCCESS]"
    and "status_code (HandleTransactionUpdate_switch h ext trx ot s)
           = Some (if succeeds (UpdateOrderTask (taskService h) (TaskId ot) ORDER_TASK_STATE_SUCCESS)
                        (world s)
                   then StatusOK else StatusInternalServerError)"
proof -
  have f: "\<not> (FraudStatus trx \<noteq> [] \<and> ToLower ext (FraudStatus trx) \<noteq> FraudStatusAccept)"
    using assms(2) by blast
  have sw: "HandleTransactionUpdate_switch h ext trx ot s =
     (case updateFn h ot ORDER_TASK_STATE_SUCCESS s of
        (Some err, s2) \<Rightarrow>
          writeJSONResponse StatusInternalServerError
            (log_err err ''failed to update success task'' s2)
      | (None, s2) \<Rightarrow>
          writeJSONResponse StatusOK
            (log_info ''successfully processing update transaction status request'' s2))"
    unfolding HandleTransactionUpdate_switch_def Let_def using assms(1) f by auto
  show "calls (HandleTransactionUpdate_switch h ext trx ot s)
           = calls s @ [CallUpdateOrderTask (TaskId ot) ORDER_TASK_STATE_SUCCESS]"
    by (simp add: sw updateFn_cases writeJSONResponse_def log_info_def log_err_def)
  show "status_code (HandleTransactionUpdate_switch h ext trx ot s)
           = Some (if succeeds (UpdateOrderTask (taskService h) (TaskId ot) ORDER_TASK_STATE_SUCCESS)
                        (world s)
                   then StatusOK else StatusInternalServerError)"
    by (simp add: sw updateFn_cases writeJSONResponse_def log_info_def log_err_def status_code_def)
qed

lemma switch_failed_group:
  assumes "ToLower ext (TransactionStatus trx) \<in>
           {ExpireTransactionStatus, FailureTransactionStatus, CancelTransactionStatus,
            DenyTransactionStatus}"
  shows "calls (HandleTransactionUpdate_switch h ext trx ot s)
           = calls s @ [CallUpdateOrderTask (TaskId ot) ORDER_TASK_STATE_FAILED]"
    and "status_code (HandleTransactionUpdate_switch h ext trx ot s)
           = Some (if succeeds (UpdateOrderTask (taskService h) (TaskId ot) ORDER_TASK_STATE_FAILED)
                        (world s)
                   then StatusOK else StatusInternalServerError)"
proof -
  have n: "ToLower ext (TransactionStatus trx) \<noteq> CaptureTransactionStatus"
    "ToLower ext (TransactionStatus trx) \<noteq> SettlementTransactionStatus"
    using assms
    by (auto simp add: CaptureTransactionStatus_def SettlementTransactionStatus_def
        ExpireTransactionStatus_def FailureTransactionStatus_def CancelTransactionStatus_def
        DenyTransactionStatus_def)
  have sw: "HandleTransactionUpdate_switch h ext trx ot s =
     (case updateFn h ot ORDER_TASK_STATE_FAILED s of
        (Some err, s1) \<Rightarrow>
          writeJSONResponse StatusInternalServerError
            (log_err err ''failed to update failed task'' s1)
      | (None, s1) \<Rightarrow>
          writeJSONResponse StatusOK
            (log_info ''successfully processing update transaction status request'' s1))"
    unfolding HandleTransactionUpdate_switch_def Let_def using assms n by auto
  show "calls (HandleTransactionUpdate_switch h ext trx ot s)
           = calls s @ [CallUpdateOrderTask (TaskId ot) ORDER_TASK_STATE_FAILED]"
    by (simp add: sw updateFn_cases writeJSONResponse_def log_info_def log_err_def)
  show "status_code (HandleTransactionUpdate_switch h ext trx ot s)
           = Some (if succeeds (UpdateOrderTask (taskService h) (TaskId ot) ORDER_TASK_STATE_FAILED)
                        (world s)
                   then StatusOK else StatusInternalServerError)"
    by (simp add: sw updateFn_cases writeJSONResponse_def log_info_def log_err_def status_code_def)
qed

text \<open>The write of the failed arm reaches the task service.\<close>

lemma switch_failed_group_effect:
  assumes "ToLower ext (TransactionStatus trx) \<in>
           {ExpireTransactionStatus, FailureTransactionStatus, CancelTransactionStatus,
            DenyTransactionStatus}"
  shows "world (HandleTransactionUpdate_switch h ext trx ot s)
           = snd (UpdateOrderTask (taskService h) (TaskId ot) ORDER_TASK_STATE_FAILED (world s))"
    and "failed (HandleTransactionUpdate_switch h ext trx ot s)
           = (if succeeds (UpdateOrderTask (taskService h) (TaskId ot) ORDER_TASK_STATE_FAILED)
                   (world s)
              then failed s
              else failed s @ [CallUpdateOrderTask (TaskId ot) ORDER_TASK_STATE_FAILED])"
proof -
  have n: "ToLower ext (TransactionStatus trx) \<noteq> CaptureTransactionStatus"
    "ToLower ext (TransactionStatus trx) \<noteq> SettlementTransactionStatus"
    using assms
    by (auto simp add: CaptureTransactionStatus_def SettlementTransactionStatus_def
        ExpireTransactionStatus_def FailureTransactionStatus_def CancelTransactionStatus_def
        DenyTransactionStatus_def)
  have sw: "HandleTransactionUpdate_switch h ext trx ot s =
     (case updateFn h ot ORDER_TASK_STATE_FAILED s of
        (Some err, s1) \<Rightarrow>
          writeJSONResponse StatusInternalServerError
            (log_err err ''failed to update failed task'' s1)
      | (None, s1) \<Rightarrow>
          writeJSONResponse StatusOK
            (log_info ''successfully processing update transaction status request'' s1))"
    unfolding HandleTransactionUpdate_switch_def Let_def using assms n by auto
  show "world (HandleTransactionUpdate_switch h ext trx ot s)
           = snd (UpdateOrderTask (taskService h) (TaskId ot) ORDER_TASK_STATE_FAILED (world s))"
    by (simp add: sw updateFn_cases writeJSONResponse_def log_info_def log_err_def)
  show "failed (HandleTransactionUpdate_switch h ext trx ot s)
           = (if succeeds (UpdateOrderTask (taskService h) (TaskId ot) ORDER_TASK_STATE_FAILED)
                   (world s)
              then failed s
              else failed s @ [CallUpdateOrderTask (TaskId ot) ORDER_TASK_STATE_FAILED])"
    by (simp add: sw updateFn_cases writeJSONResponse_def log_info_def log_err_def)
qed






text \<open>An entry logged before the guards stays in front and changes nothing else.\<close>

lemma prepend_simps:
  "log_err e m (prepend_log l s) = prepend_log l (log_err e m s)"
  "log_info m (prepend_log l s) = prepend_log l (log_info m s)"
  "writeJSONResponse c (prepend_log l s) = prepend_log l (writeJSONResponse c s)"
  "(prepend_log l s)\<lparr>panicked := b\<rparr> = prepend_log l (s\<lparr>panicked := b\<rparr>)"
  by (simp_all add: log_err_def log_info_def writeJSONResponse_def prepend_log_def)

lemma perform_prepend:
  "perform c f (prepend_log l s) = (fst (perform c f s), prepend_log l (snd (perform c f s)))"
  by (simp add: perform_alt prepend_log_def split: sum.split)

lemma updateFn_prepend:
  "updateFn h ot st (prepend_log l s) =
     (fst (updateFn h ot st s), prepend_log l (snd (updateFn h ot st s)))"
  by (simp add: updateFn_def perform_prepend prepend_simps split: prod.split sum.split)

lemma switch_prepend:
  "HandleTransactionUpdate_switch h ext trx ot (prepend_log l s)
     = prepend_log l (HandleTransactionUpdate_switch h ext trx ot s)"
  by (simp add: HandleTransactionUpdate_switch_def Let_def updateFn_prepend prepend_simps
      split: prod.split option.split)

lemma guards_prepend:
  "HandleTransactionUpdate_guards h ext r (prepend_log l s)
     = (case HandleTransactionUpdate_guards h ext r s of
          Inl fin \<Rightarrow> Inl (prepend_log l fin)
        | Inr (trx, ot, s') \<Rightarrow> Inr (trx, ot, prepend_log l s'))"
  by (simp add: HandleTransactionUpdate_guards_def Let_def perform_prepend prepend_simps
      initializeTransactionGetter_def
      split: option.split sum.split prod.split)

lemma guards_Method:
  "HandleTransactionUpdate_guards h ext (r\<lparr>Method := m\<rparr>) s = HandleTransactionUpdate_guards h ext r s"
  by (simp add: HandleTransactionUpdate_guards_def cong: option.case_cong)

subsection \<open>The claims\<close>




text \<open>
  Claim C2. A notification whose signature key differs from the keyed hash of its order id,
  status code, gross amount and the server key is answered with 400, and no collaborator
  is called: no status lookup, no \<^verbatim>\<open>GetOrderTask\<close>, no \<^verbatim>\<open>Get\<close>, no
  \<^verbatim>\<open>UpdateOrderTask\<close>; the world is left as it was.
\<close>

theorem C2_signature_gate:
  assumes "Body r = Some req"
    and "SignatureKey req \<noteq> keyed_hash ext (OrderID req) (StatusCode req) (GrossAmount req) (serverKey h)"
  shows "status_code (HandleTransactionUpdate h ext r w) = Some StatusBadRequest
       \<and> calls (HandleTransactionUpdate h ext r w) = []
       \<and> world (HandleTransactionUpdate h ext r w) = w"
  using assms
  by (simp add: HandleTransactionUpdate_def HandleTransactionUpdate_guards_def Let_def
      status_code_def writeJSONResponse_def start_calls ValidateCallbackSignature_def log_err_def
      split: option.split)

text \<open>
  The example notification with a forged signature key.
\<close>

theorem C2_signature_gate_witness:
  "Body (example_http ''POST'' ((example_request ''settlement'' ''accept'')\<lparr>SignatureKey := ''forged''\<rparr>))
     = Some ((example_request ''settlement'' ''accept'')\<lparr>SignatureKey := ''forged''\<rparr>)
   \<and> SignatureKey ((example_request ''settlement'' ''accept'')\<lparr>SignatureKey := ''forged''\<rparr>)
       \<noteq> keyed_hash (example_ext (Inr (example_request ''settlement'' ''accept'')))
           (OrderID ((example_request ''settlement'' ''accept'')\<lparr>SignatureKey := ''forged''\<rparr>))
           (StatusCode ((example_request ''settlement'' ''accept'')\<lparr>SignatureKey := ''forged''\<rparr>))
           (GrossAmount ((example_request ''settlement'' ''accept'')\<lparr>SignatureKey := ''forged''\<rparr>))
           (serverKey example_handler_up)
   \<and> status_code (HandleTransactionUpdate example_handler_up
         (example_ext (Inr (example_request ''settlement'' ''accept'')))
         (example_http ''POST'' ((example_request ''settlement'' ''accept'')\<lparr>SignatureKey := ''forged''\<rparr>)) 0)
       = Some StatusBadRequest
   \<and> calls (HandleTransactionUpdate example_handler_up
         (example_ext (Inr (example_request ''settlement'' ''accept'')))
         (example_http ''POST'' ((example_request ''settlement'' ''accept'')\<lparr>SignatureKey := ''forged''\<rparr>)) 0)
       = []
   \<and> world (HandleTransactionUpdate example_handler_up
         (example_ext (Inr (example_request ''settlement'' ''accept'')))
         (example_http ''POST'' ((example_request ''settlement'' ''accept'')\<lparr>SignatureKey := ''forged''\<rparr>)) 0)
       = 0"
proof -
  let ?req = "(example_request ''settlement'' ''accept'')\<lparr>SignatureKey := ''forged''\<rparr>"
  let ?e = "example_ext (Inr (example_request ''settlement'' ''accept''))"
  have a: "Body (example_http ''POST'' ?req) = Some ?req"
    by (simp add: example_defs)
  have b: "SignatureKey ?req \<noteq> keyed_hash ?e (OrderID ?req) (StatusCode ?req) (GrossAmount ?req)
             (serverKey example_handler_up)"
    by (simp add: example_defs)
  from C2_signature_gate[OF a b, of 0] a b show ?thesis by blast
qed

text \<open>
  Claim C3, as the handler implements it. A notification that passes the header, body and
  signature gates, is not pending, has a supported payment type, whose status lookup
  returns settlement or capture with the fraud status absent or accept, whose payment task
  is not in state SUCCESS and whose order is not in a terminal state, leads to exactly one
  \<^verbatim>\<open>UpdateOrderTask\<close> call, with state SUCCESS; the answer is 200 when that call
  succeeds and 500 when it fails.
\<close>

theorem C3_settlement_success_update:
  assumes "validateHeaders (ContentType r) = None"
    and "Body r = Some req"
    and "ValidateCallbackSignature ext (SignatureKey req) (OrderID req) (StatusCode req)
           (GrossAmount req) (serverKey h) = None"
    and "ToLower ext (TransactionStatus req) \<noteq> PendingTransactionStatus"
    and "PaymentType req = PaymentMethod_Gopay ext \<or> PaymentType req = PaymentMethod_VirtualAccount ext"
    and "NewTransaction ext (chargeURL h) (getStatusURL h) (serverKey h) = Inr g"
    and "GetTransactionStatus g (OrderID req) w = (Inr trx, w1)"
    and "ToLower ext (TransactionStatus trx) = SettlementTransactionStatus
           \<or> ToLower ext (TransactionStatus trx) = CaptureTransactionStatus"
    and "FraudStatus trx = [] \<or> ToLower ext (FraudStatus trx) = FraudStatusAccept"
    and "GetOrderTask (taskService h) (OrderID req) w1 = (Inr tasks, w2)"
    and "State (select_payment_task tasks) \<noteq> ORDER_TASK_STATE_SUCCESS"
    and "Get (orderService h) (OrderId (select_payment_task tasks)) w2 = (Inr (Some order), w3)"
    and "Order_State order \<noteq> ORDER_STATE_PAID" "Order_State order \<noteq> ORDER_STATE_CANCELLED"
        "Order_State order \<noteq> ORDER_STATE_DONE"
  shows "updates (HandleTransactionUpdate h ext r w)
           = [CallUpdateOrderTask (TaskId (select_payment_task tasks)) ORDER_TASK_STATE_SUCCESS]
       \<and> calls (HandleTransactionUpdate h ext r w)
           = [CallGetTransactionStatus (OrderID req), CallGetOrderTask (OrderID req),
              CallGet (OrderId (select_payment_task tasks)),
              CallUpdateOrderTask (TaskId (select_payment_task tasks)) ORDER_TASK_STATE_SUCCESS]
       \<and> status_code (HandleTransactionUpdate h ext r w)
           = Some (if succeeds (UpdateOrderTask (taskService h) (TaskId (select_payment_task tasks))
                                  ORDER_TASK_STATE_SUCCESS) w3
                   then StatusOK else StatusInternalServerError)"
proof -
  let ?s0 = "method_check r (init_run w)"
  let ?ot = "select_payment_task tasks"
  let ?s3 = "?s0\<lparr>calls := calls ?s0 @ [CallGetTransactionStatus (OrderID req),
                                         CallGetOrderTask (OrderID req), CallGet (OrderId ?ot)],
                 world := w3\<rparr>"
  have g: "GetTransactionStatus g (OrderID req) (world ?s0) = (Inr trx, w1)"
    using assms(7) by (simp add: start_calls)
  have reach: "HandleTransactionUpdate_guards h ext r ?s0 = Inr (trx, ?ot, ?s3)"
    by (rule guards_reach[OF assms(1-6) g assms(10-15)])
  have H: "HandleTransactionUpdate h ext r w = HandleTransactionUpdate_switch h ext trx ?ot ?s3"
    by (simp add: HandleTransactionUpdate_def reach)
  have c3: "calls ?s3 = [CallGetTransactionStatus (OrderID req), CallGetOrderTask (OrderID req),
                         CallGet (OrderId ?ot)]"
    and w3: "world ?s3 = w3"
    by (simp_all add: start_calls)
  show ?thesis
    unfolding H updates_def switch_success[OF assms(8,9)] c3 w3 by simp
qed

text \<open>
  The settlement scenario of the specification: lookup settlement and accept, task open,
  order open, the write accepted.
\<close>

theorem C3_settlement_success_update_witness:
  "validateHeaders (ContentType (example_http ''POST'' (example_request ''settlement'' []))) = None
   \<and> Body (example_http ''POST'' (example_request ''settlement'' []))
       = Some (example_request ''settlement'' [])
   \<and> ValidateCallbackSignature (example_ext (Inr (example_request ''settlement'' ''accept'')))
         (SignatureKey (example_request ''settlement'' []))
         (OrderID (example_request ''settlement'' []))
         (StatusCode (example_request ''settlement'' []))
         (GrossAmount (example_request ''settlement'' []))
         (serverKey example_handler_up) = None
   \<and> ToLower (example_ext (Inr (example_request ''settlement'' ''accept'')))
         (TransactionStatus (example_request ''settlement'' [])) \<noteq> PendingTransactionStatus
   \<and> (PaymentType (example_request ''settlement'' [])
         = PaymentMethod_Gopay (example_ext (Inr (example_request ''settlement'' ''accept'')))
       \<or> PaymentType (example_request ''settlement'' [])
         = PaymentMethod_VirtualAccount (example_ext (Inr (example_request ''settlement'' ''accept''))))
   \<and> NewTransaction (example_ext (Inr (example_request ''settlement'' ''accept'')))
         (chargeURL example_handler_up) (getStatusURL example_handler_up)
         (serverKey example_handler_up)
       = Inr (example_getter (Inr (example_request ''settlement'' ''accept'')))
   \<and> GetTransactionStatus (example_getter (Inr (example_request ''settlement'' ''accept'')))
         (OrderID (example_request ''settlement'' [])) 0
       = (Inr (example_request ''settlement'' ''accept''), 0)
   \<and> (ToLower (example_ext (Inr (example_request ''settlement'' ''accept'')))
          (TransactionStatus (example_request ''settlement'' ''accept'')) = SettlementTransactionStatus
       \<or> ToLower (example_ext (Inr (example_request ''settlement'' ''accept'')))
          (TransactionStatus (example_request ''settlement'' ''accept'')) = CaptureTransactionStatus)
   \<and> (FraudStatus (example_request ''settlement'' ''accept'') = []
       \<or> ToLower (example_ext (Inr (example_request ''settlement'' ''accept'')))
            (FraudStatus (example_request ''settlement'' ''accept'')) = FraudStatusAccept)
   \<and> GetOrderTask (taskService example_handler_up) (OrderID (example_request ''settlement'' [])) 0
       = (Inr (example_tasks example_ongoing), 0)
   \<and> State (select_payment_task (example_tasks example_ongoing)) \<noteq> ORDER_TASK_STATE_SUCCESS
   \<and> Get (orderService example_handler_up)
         (OrderId (select_payment_task (example_tasks example_ongoing))) 0
       = (Inr (Some example_order), 0)
   \<and> Order_State example_order \<noteq> ORDER_STATE_PAID
   \<and> Order_State example_order \<noteq> ORDER_STATE_CANCELLED
   \<and> Order_State example_order \<noteq> ORDER_STATE_DONE
   \<and> updates (HandleTransactionUpdate example_handler_up
         (example_ext (Inr (example_request ''settlement'' ''accept'')))
         (example_http ''POST'' (example_request ''settlement'' [])) 0)
       = [CallUpdateOrderTask ''T1'' ORDER_TASK_STATE_SUCCESS]
   \<and> status_code (HandleTransactionUpdate example_handler_up
         (example_ext (Inr (example_request ''settlement'' ''accept'')))
         (example_http ''POST'' (example_request ''settlement'' [])) 0)
       = Some StatusOK"
proof -
  let ?h = "example_handler_up"
  let ?trx = "example_request ''settlement'' ''accept''"
  let ?req = "example_request ''settlement'' []"
  let ?e = "example_ext (Inr ?trx)"
  let ?r = "example_http ''POST'' ?req"
  let ?tasks = "example_tasks example_ongoing"
  have h1: "validateHeaders (ContentType ?r) = None"
    by (simp add: example_defs validateHeaders_def)
  have h2: "Body ?r = Some ?req" by (simp add: example_defs)
  have h3: "ValidateCallbackSignature ?e (SignatureKey ?req) (OrderID ?req) (StatusCode ?req)
              (GrossAmount ?req) (serverKey ?h) = None"
    by (simp add: example_defs ValidateCallbackSignature_def)
  have h4: "ToLower ?e (TransactionStatus ?req) \<noteq> PendingTransactionStatus"
    by (simp add: example_defs eval_defs)
  have h5: "PaymentType ?req = PaymentMethod_Gopay ?e
            \<or> PaymentType ?req = PaymentMethod_VirtualAccount ?e"
    by (simp add: example_defs)
  have h6: "NewTransaction ?e (chargeURL ?h) (getStatusURL ?h) (serverKey ?h)
              = Inr (example_getter (Inr ?trx))"
    by (simp add: example_ext_def)
  have h7: "GetTransactionStatus (example_getter (Inr ?trx)) (OrderID ?req) 0 = (Inr ?trx, 0)"
    by (simp add: example_getter_def)
  have h8: "ToLower ?e (TransactionStatus ?trx) = SettlementTransactionStatus
            \<or> ToLower ?e (TransactionStatus ?trx) = CaptureTransactionStatus"
    by (simp add: example_defs eval_defs)
  have h9: "FraudStatus ?trx = [] \<or> ToLower ?e (FraudStatus ?trx) = FraudStatusAccept"
    by (simp add: example_defs eval_defs)
  have h10: "GetOrderTask (taskService ?h) (OrderID ?req) 0 = (Inr ?tasks, 0)"
    by (simp add: example_defs)
  have h11: "State (select_payment_task ?tasks) \<noteq> ORDER_TASK_STATE_SUCCESS"
    by (simp add: example_defs)
  have h12: "Get (orderService ?h) (OrderId (select_payment_task ?tasks)) 0
               = (Inr (Some example_order), 0)"
    by (simp add: example_defs)
  have h13: "Order_State example_order \<noteq> ORDER_STATE_PAID"
    and h14: "Order_State example_order \<noteq> ORDER_STATE_CANCELLED"
    and h15: "Order_State example_order \<noteq> ORDER_STATE_DONE"
    by (simp_all add: example_defs)
  have t: "TaskId (select_payment_task ?tasks) = ''T1''"
    by (simp add: example_defs)
  have ok: "succeeds (UpdateOrderTask (taskService ?h) ''T1'' ORDER_TASK_STATE_SUCCESS) 0"
    by (simp add: example_defs succeeds_def)
  from C3_settlement_success_update[OF h1 h2 h3 h4 h5 h6 h7 h8 h9 h10 h11 h12 h13 h14 h15]
  have c: "updates (HandleTransactionUpdate ?h ?e ?r 0)
             = [CallUpdateOrderTask ''T1'' ORDER_TASK_STATE_SUCCESS]
         \<and> status_code (HandleTransactionUpdate ?h ?e ?r 0) = Some StatusOK"
    by (simp add: t ok)
  from h1 h2 h3 h4 h5 h6 h7 h8 h9 h10 h11 h12 h13 h14 h15 c show ?thesis by blast
qed

text \<open>
  The same settlement scenario on a task service that refuses the write: every condition
  of the claim holds and the answer is 500, not 200.
\<close>

theorem C3_counterexample:
  "validateHeaders (ContentType (example_http ''POST'' (example_request ''settlement'' []))) = None
   \<and> Body (example_http ''POST'' (example_request ''settlement'' []))
       = Some (example_request ''settlement'' [])
   \<and> ValidateCallbackSignature (example_ext (Inr (example_request ''settlement'' ''accept'')))
         (SignatureKey (example_request ''settlement'' []))
         (OrderID (example_request ''settlement'' []))
         (StatusCode (example_request ''settlement'' []))
         (GrossAmount (example_request ''settlement'' []))
         (serverKey example_handler_down) = None
   \<and> ToLower (example_ext (Inr (example_request ''settlement'' ''accept'')))
         (TransactionStatus (example_request ''settlement'' [])) \<noteq> PendingTransactionStatus
   \<and> PaymentType (example_request ''settlement'' [])
         = PaymentMethod_Gopay (example_ext (Inr (example_request ''settlement'' ''accept'')))
   \<and> NewTransaction (example_ext (Inr (example_request ''settlement'' ''accept'')))
         (chargeURL example_handler_down) (getStatusURL example_handler_down)
         (serverKey example_handler_down)
       = Inr (example_getter (Inr (example_request ''settlement'' ''accept'')))
   \<and> GetTransactionStatus (example_getter (Inr (example_request ''settlement'' ''accept'')))
         (OrderID (example_request ''settlement'' [])) 0
       = (Inr (example_request ''settlement'' ''accept''), 0)
   \<and> TransactionStatus (example_request ''settlement'' ''accept'') = ''settlement''
   \<and> FraudStatus (example_request ''settlement'' ''accept'') = ''accept''
   \<and> GetOrderTask (taskService example_handler_down)
         (OrderID (example_request ''settlement'' [])) 0
       = (Inr (example_tasks example_ongoing), 0)
   \<and> State (select_payment_task (example_tasks example_ongoing)) \<noteq> ORDER_TASK_STATE_SUCCESS
   \<and> Get (orderService example_handler_down)
         (OrderId (select_payment_task (example_tasks example_ongoing))) 0
       = (Inr (Some example_order), 0)
   \<and> Order_State example_order \<noteq> ORDER_STATE_PAID
   \<and> Order_State example_order \<noteq> ORDER_STATE_CANCELLED
   \<and> Order_State example_order \<noteq> ORDER_STATE_DONE
   \<and> status_code (HandleTransactionUpdate example_handler_down
         (example_ext (Inr (example_request ''settlement'' ''accept'')))
         (example_http ''POST'' (example_request ''settlement'' [])) 0)
       = Some StatusInternalServerError
   \<and> status_code (HandleTransactionUpdate example_handler_down
         (example_ext (Inr (example_request ''settlement'' ''accept'')))
         (example_http ''POST'' (example_request ''settlement'' [])) 0)
       \<noteq> Some StatusOK"
  by (simp add: example_defs eval_defs)

text \<open>
  Claim C4. When a request reaches the status classification with authoritative status
  expire, failure, cancel or deny (after lower-casing), exactly one \<^verbatim>\<open>UpdateOrderTask\<close>
  call is made, with state FAILED, and when that write succeeds the answer is 200. The call
  goes to the task service: the final world is the one that the service returns for it, and
  when the service refuses the write the answer is 500 and the call is the failed one.
\<close>

theorem C4_failed_statuses_update:
  assumes "reaches_classification h ext r w trx ot s"
    and "ToLower ext (TransactionStatus trx) \<in>
           {ExpireTransactionStatus, FailureTransactionStatus, CancelTransactionStatus,
            DenyTransactionStatus}"
  shows "updates (HandleTransactionUpdate h ext r w)
           = [CallUpdateOrderTask (TaskId ot) ORDER_TASK_STATE_FAILED]
       \<and> calls (HandleTransactionUpdate h ext r w)
           = calls s @ [CallUpdateOrderTask (TaskId ot) ORDER_TASK_STATE_FAILED]
       \<and> (succeeds (UpdateOrderTask (taskService h) (TaskId ot) ORDER_TASK_STATE_FAILED) (world s)
            \<longrightarrow> status_code (HandleTransactionUpdate h ext r w) = Some StatusOK)
       \<and> world (HandleTransactionUpdate h ext r w)
           = snd (UpdateOrderTask (taskService h) (TaskId ot) ORDER_TASK_STATE_FAILED (world s))
       \<and> (\<not> succeeds (UpdateOrderTask (taskService h) (TaskId ot) ORDER_TASK_STATE_FAILED) (world s)
            \<longrightarrow> status_code (HandleTransactionUpdate h ext r w) = Some StatusInternalServerError
              \<and> failed (HandleTransactionUpdate h ext r w)
                  = [CallUpdateOrderTask (TaskId ot) ORDER_TASK_STATE_FAILED])"
proof -
  note H = handler_at_switch[OF assms(1)]
  from reach_state[OF assms(1)] have nou: "filter is_update (calls s) = []"
    and nof: "failed s = []" by auto
  have c: "calls (HandleTransactionUpdate h ext r w)
           = calls s @ [CallUpdateOrderTask (TaskId ot) ORDER_TASK_STATE_FAILED]"
    unfolding H by (rule switch_failed_group(1)[OF assms(2)])
  have u: "updates (HandleTransactionUpdate h ext r w)
           = [CallUpdateOrderTask (TaskId ot) ORDER_TASK_STATE_FAILED]"
    unfolding updates_def c using nou by simp
  have st: "status_code (HandleTransactionUpdate h ext r w)
           = Some (if succeeds (UpdateOrderTask (taskService h) (TaskId ot) ORDER_TASK_STATE_FAILED)
                        (world s)
                   then StatusOK else StatusInternalServerError)"
    unfolding H by (rule switch_failed_group(2)[OF assms(2)])
  have wd: "world (HandleTransactionUpdate h ext r w)
           = snd (UpdateOrderTask (taskService h) (TaskId ot) ORDER_TASK_STATE_FAILED (world s))"
    unfolding H by (rule switch_failed_group_effect(1)[OF assms(2)])
  have fl: "failed (HandleTransactionUpdate h ext r w)
           = (if succeeds (UpdateOrderTask (taskService h) (TaskId ot) ORDER_TASK_STATE_FAILED)
                   (world s)
              then [] else [CallUpdateOrderTask (TaskId ot) ORDER_TASK_STATE_FAILED])"
    unfolding H switch_failed_group_effect(2)[OF assms(2)] nof by simp
  show ?thesis using c u st wd fl by simp
qed

text \<open>
  A notification whose lookup answers expire, on a task service that accepts the write (the
  counter of accepted writes goes to one) and on one that refuses it.
\<close>

theorem C4_failed_statuses_update_witness:
  "reaches_classification example_handler_up
      (example_ext (Inr (example_request ''expire'' [])))
      (example_http ''POST'' (example_request ''expire'' [])) 0
      (example_request ''expire'' []) example_task example_at_switch
   \<and> ToLower (example_ext (Inr (example_request ''expire'' [])))
         (TransactionStatus (example_request ''expire'' []))
       \<in> {ExpireTransactionStatus, FailureTransactionStatus, CancelTransactionStatus,
          DenyTransactionStatus}
   \<and> succeeds (UpdateOrderTask (taskService example_handler_up) (TaskId example_task)
                  ORDER_TASK_STATE_FAILED) (world example_at_switch)
   \<and> updates (HandleTransactionUpdate example_handler_up
         (example_ext (Inr (example_request ''expire'' [])))
         (example_http ''POST'' (example_request ''expire'' [])) 0)
       = [CallUpdateOrderTask (TaskId example_task) ORDER_TASK_STATE_FAILED]
   \<and> status_code (HandleTransactionUpdate example_handler_up
         (example_ext (Inr (example_request ''expire'' [])))
         (example_http ''POST'' (example_request ''expire'' [])) 0)
       = Some StatusOK
   \<and> world (HandleTransactionUpdate example_handler_up
         (example_ext (Inr (example_request ''expire'' [])))
         (example_http ''POST'' (example_request ''expire'' [])) 0)
       = 1
   \<and> reaches_classification example_handler_down
      (example_ext (Inr (example_request ''expire'' [])))
      (example_http ''POST'' (example_request ''expire'' [])) 0
      (example_request ''expire'' []) example_task example_at_switch
   \<and> \<not> succeeds (UpdateOrderTask (taskService example_handler_down) (TaskId example_task)
                  ORDER_TASK_STATE_FAILED) (world example_at_switch)
   \<and> updates (HandleTransactionUpdate example_handler_down
         (example_ext (Inr (example_request ''expire'' [])))
         (example_http ''POST'' (example_request ''expire'' [])) 0)
       = [CallUpdateOrderTask (TaskId example_task) ORDER_TASK_STATE_FAILED]
   \<and> status_code (HandleTransactionUpdate example_handler_down
         (example_ext (Inr (example_request ''expire'' [])))
         (example_http ''POST'' (example_request ''expire'' [])) 0)
       = Some StatusInternalServerError
   \<and> failed (HandleTransactionUpdate example_handler_down
         (example_ext (Inr (example_request ''expire'' [])))
         (example_http ''POST'' (example_request ''expire'' [])) 0)
       = [CallUpdateOrderTask (TaskId example_task) ORDER_TASK_STATE_FAILED]
   \<and> world (HandleTransactionUpdate example_handler_down
         (example_ext (Inr (example_request ''expire'' [])))
         (example_http ''POST'' (example_request ''expire'' [])) 0)
       = 0"
proof -
  let ?u = "example_handler_up"
  let ?d = "example_handler_down"
  let ?trx = "example_request ''expire'' []"
  let ?e = "example_ext (Inr ?trx)"
  let ?r = "example_http ''POST'' ?trx"
  have a: "reaches_classification ?u ?e ?r 0 ?trx example_task example_at_switch"
    by (simp add: example_defs eval_defs)
  have a': "reaches_classification ?d ?e ?r 0 ?trx example_task example_at_switch"
    by (simp add: example_defs eval_defs)
  have b: "ToLower ?e (TransactionStatus ?trx)
       \<in> {ExpireTransactionStatus, FailureTransactionStatus, CancelTransactionStatus,
          DenyTransactionStatus}"
    by (simp add: example_defs eval_defs)
  have c: "succeeds (UpdateOrderTask (taskService ?u) (TaskId example_task)
                  ORDER_TASK_STATE_FAILED) (world example_at_switch)"
    by (simp add: example_defs eval_defs)
  have c': "\<not> succeeds (UpdateOrderTask (taskService ?d) (TaskId example_task)
                  ORDER_TASK_STATE_FAILED) (world example_at_switch)"
    by (simp add: example_defs eval_defs)
  have wu: "snd (UpdateOrderTask (taskService ?u) (TaskId example_task)
                  ORDER_TASK_STATE_FAILED (world example_at_switch)) = 1"
    by (simp add: example_defs)
  have wd: "snd (UpdateOrderTask (taskService ?d) (TaskId example_task)
                  ORDER_TASK_STATE_FAILED (world example_at_switch)) = 0"
    by (simp add: example_defs)
  from C4_failed_statuses_update[OF a b] C4_failed_statuses_update[OF a' b]
    a a' b c c' wu wd
  show ?thesis by simp
qed

text \<open>
  Claim C5. When the order fetched for the resolved task is in state paid, cancelled or
  done, the handler answers 400 and makes no \<^verbatim>\<open>UpdateOrderTask\<close> call, whatever the
  authoritative transaction says.
\<close>

theorem C5_terminal_order_rejected:
  assumes "validateHeaders (ContentType r) = None"
    and "Body r = Some req"
    and "ValidateCallbackSignature ext (SignatureKey req) (OrderID req) (StatusCode req)
           (GrossAmount req) (serverKey h) = None"
    and "ToLower ext (TransactionStatus req) \<noteq> PendingTransactionStatus"
    and "PaymentType req = PaymentMethod_Gopay ext \<or> PaymentType req = PaymentMethod_VirtualAccount ext"
    and "NewTransaction ext (chargeURL h) (getStatusURL h) (serverKey h) = Inr g"
    and "GetTransactionStatus g (OrderID req) w = (Inr trx, w1)"
    and "GetOrderTask (taskService h) (OrderID req) w1 = (Inr tasks, w2)"
    and "State (select_payment_task tasks) \<noteq> ORDER_TASK_STATE_SUCCESS"
    and "Get (orderService h) (OrderId (select_payment_task tasks)) w2 = (Inr (Some order), w3)"
    and "Order_State order = ORDER_STATE_PAID \<or> Order_State order = ORDER_STATE_CANCELLED
           \<or> Order_State order = ORDER_STATE_DONE"
  shows "status_code (HandleTransactionUpdate h ext r w) = Some StatusBadRequest
       \<and> updates (HandleTransactionUpdate h ext r w) = []
       \<and> world (HandleTransactionUpdate h ext r w) = w3"
  using assms
  by (simp add: HandleTransactionUpdate_def HandleTransactionUpdate_guards_def Let_def
      initializeTransactionGetter_ok perform_def start_calls
      status_code_def writeJSONResponse_def log_info_def log_err_def updates_def)

text \<open>
  The order of the resolved task is already done.
\<close>

theorem C5_terminal_order_rejected_witness:
  "validateHeaders (ContentType (example_http ''POST'' (example_request ''settlement'' []))) = None
   \<and> Body (example_http ''POST'' (example_request ''settlement'' []))
       = Some (example_request ''settlement'' [])
   \<and> ValidateCallbackSignature (example_ext (Inr (example_request ''settlement'' ''accept'')))
         (SignatureKey (example_request ''settlement'' []))
         (OrderID (example_request ''settlement'' []))
         (StatusCode (example_request ''settlement'' []))
         (GrossAmount (example_request ''settlement'' []))
         (serverKey (example_handler (Inr (example_tasks example_ongoing))
            (Inr (Some \<lparr>Order_State = ORDER_STATE_DONE\<rparr>)) (\<lambda>st. True))) = None
   \<and> ToLower (example_ext (Inr (example_request ''settlement'' ''accept'')))
         (TransactionStatus (example_request ''settlement'' [])) \<noteq> PendingTransactionStatus
   \<and> (PaymentType (example_request ''settlement'' [])
         = PaymentMethod_Gopay (example_ext (Inr (example_request ''settlement'' ''accept'')))
       \<or> PaymentType (example_request ''settlement'' [])
         = PaymentMethod_VirtualAccount (example_ext (Inr (example_request ''settlement'' ''accept''))))
   \<and> NewTransaction (example_ext (Inr (example_request ''settlement'' ''accept'')))
         (chargeURL (example_handler (Inr (example_tasks example_ongoing))
            (Inr (Some \<lparr>Order_State = ORDER_STATE_DONE\<rparr>)) (\<lambda>st. True)))
         (getStatusURL (example_handler (Inr (example_tasks example_ongoing))
            (Inr (Some \<lparr>Order_State = ORDER_STATE_DONE\<rparr>)) (\<lambda>st. True)))
         (serverKey (example_handler (Inr (example_tasks example_ongoing))
            (Inr (Some \<lparr>Order_State = ORDER_STATE_DONE\<rparr>)) (\<lambda>st. True)))
       = Inr (example_getter (Inr (example_request ''settlement'' ''accept'')))
   \<and> GetTransactionStatus (example_getter (Inr (example_request ''settlement'' ''accept'')))
         (OrderID (example_request ''settlement'' [])) 0
       = (Inr (example_request ''settlement'' ''accept''), 0)
   \<and> GetOrderTask (taskService (example_handler (Inr (example_tasks example_ongoing))
            (Inr (Some \<lparr>Order_State = ORDER_STATE_DONE\<rparr>)) (\<lambda>st. True)))
         (OrderID (example_request ''settlement'' [])) 0
       = (Inr (example_tasks example_ongoing), 0)
   \<and> State (select_payment_task (example_tasks example_ongoing)) \<noteq> ORDER_TASK_STATE_SUCCESS
   \<and> Get (orderService (example_handler (Inr (example_tasks example_ongoing))
            (Inr (Some \<lparr>Order_State = ORDER_STATE_DONE\<rparr>)) (\<lambda>st. True)))
         (OrderId (select_payment_task (example_tasks example_ongoing))) 0
       = (Inr (Some \<lparr>Order_State = ORDER_STATE_DONE\<rparr>), 0)
   \<and> (Order_State \<lparr>Order_State = ORDER_STATE_DONE\<rparr> = ORDER_STATE_PAID
       \<or> Order_State \<lparr>Order_State = ORDER_STATE_DONE\<rparr> = ORDER_STATE_CANCELLED
       \<or> Order_State \<lparr>Order_State = ORDER_STATE_DONE\<rparr> = ORDER_STATE_DONE)
   \<and> status_code (HandleTransactionUpdate
         (example_handler (Inr (example_tasks example_ongoing))
            (Inr (Some \<lparr>Order_State = ORDER_STATE_DONE\<rparr>)) (\<lambda>st. True))
         (example_ext (Inr (example_request ''settlement'' ''accept'')))
         (example_http ''POST'' (example_request ''settlement'' [])) 0)
       = Some StatusBadRequest
   \<and> updates (HandleTransactionUpdate
         (example_handler (Inr (example_tasks example_ongoing))
            (Inr (Some \<lparr>Order_State = ORDER_STATE_DONE\<rparr>)) (\<lambda>st. True))
         (example_ext (Inr (example_request ''settlement'' ''accept'')))
         (example_http ''POST'' (example_request ''settlement'' [])) 0)
       = []"
proof -
  let ?o = "\<lparr>Order_State = ORDER_STATE_DONE\<rparr>"
  let ?tasks = "example_tasks example_ongoing"
  let ?h = "example_handler (Inr ?tasks) (Inr (Some ?o)) (\<lambda>st. True)"
  let ?trx = "example_request ''settlement'' ''accept''"
  let ?req = "example_request ''settlement'' []"
  let ?e = "example_ext (Inr ?trx)"
  let ?r = "example_http ''POST'' ?req"
  have h1: "validateHeaders (ContentType ?r) = None"
    by (simp add: example_defs validateHeaders_def)
  have h2: "Body ?r = Some ?req" by (simp add: example_defs)
  have h3: "ValidateCallbackSignature ?e (SignatureKey ?req) (OrderID ?req) (StatusCode ?req)
              (GrossAmount ?req) (serverKey ?h) = None"
    by (simp add: example_defs ValidateCallbackSignature_def)
  have h4: "ToLower ?e (TransactionStatus ?req) \<noteq> PendingTransactionStatus"
    by (simp add: example_defs eval_defs)
  have h5: "PaymentType ?req = PaymentMethod_Gopay ?e
            \<or> PaymentType ?req = PaymentMethod_VirtualAccount ?e"
    by (simp add: example_defs)
  have h6: "NewTransaction ?e (chargeURL ?h) (getStatusURL ?h) (serverKey ?h)
              = Inr (example_getter (Inr ?trx))"
    by (simp add: example_ext_def)
  have h7: "GetTransactionStatus (example_getter (Inr ?trx)) (OrderID ?req) 0 = (Inr ?trx, 0)"
    by (simp add: example_getter_def)
  have h8: "GetOrderTask (taskService ?h) (OrderID ?req) 0 = (Inr ?tasks, 0)"
    by (simp add: example_defs)
  have h9: "State (select_payment_task ?tasks) \<noteq> ORDER_TASK_STATE_SUCCESS"
    by (simp add: example_defs)
  have h10: "Get (orderService ?h) (OrderId (select_payment_task ?tasks)) 0
               = (Inr (Some ?o), 0)"
    by (simp add: example_defs)
  have h11: "Order_State ?o = ORDER_STATE_PAID \<or> Order_State ?o = ORDER_STATE_CANCELLED
             \<or> Order_State ?o = ORDER_STATE_DONE"
    by simp
  from C5_terminal_order_rejected[OF h1 h2 h3 h4 h5 h6 h7 h8 h9 h10 h11]
    h1 h2 h3 h4 h5 h6 h7 h8 h9 h10 h11
  show ?thesis by blast
qed

text \<open>
  Claim C6. When the resolved payment task is already in state SUCCESS, the handler answers
  200 and never calls \<^verbatim>\<open>UpdateOrderTask\<close>: the only calls are the two lookups before
  the guard, so a notification delivered again after the task is final writes nothing.
\<close>

theorem C6_already_success_noop:
  assumes "validateHeaders (ContentType r) = None"
    and "Body r = Some req"
    and "ValidateCallbackSignature ext (SignatureKey req) (OrderID req) (StatusCode req)
           (GrossAmount req) (serverKey h) = None"
    and "ToLower ext (TransactionStatus req) \<noteq> PendingTransactionStatus"
    and "PaymentType req = PaymentMethod_Gopay ext \<or> PaymentType req = PaymentMethod_VirtualAccount ext"
    and "NewTransaction ext (chargeURL h) (getStatusURL h) (serverKey h) = Inr g"
    and "GetTransactionStatus g (OrderID req) w = (Inr trx, w1)"
    and "GetOrderTask (taskService h) (OrderID req) w1 = (Inr tasks, w2)"
    and "State (select_payment_task tasks) = ORDER_TASK_STATE_SUCCESS"
  shows "status_code (HandleTransactionUpdate h ext r w) = Some StatusOK
       \<and> updates (HandleTransactionUpdate h ext r w) = []
       \<and> calls (HandleTransactionUpdate h ext r w)
           = [CallGetTransactionStatus (OrderID req), CallGetOrderTask (OrderID req)]
       \<and> world (HandleTransactionUpdate h ext r w) = w2"
  using assms
  by (simp add: HandleTransactionUpdate_def HandleTransactionUpdate_guards_def Let_def
      initializeTransactionGetter_ok perform_def start_calls
      status_code_def writeJSONResponse_def log_info_def updates_def)

text \<open>
  The payment task is already in state SUCCESS.
\<close>

theorem C6_already_success_noop_witness:
  "validateHeaders (ContentType (example_http ''POST'' (example_request ''settlement'' []))) = None
   \<and> Body (example_http ''POST'' (example_request ''settlement'' []))
       = Some (example_request ''settlement'' [])
   \<and> ValidateCallbackSignature (example_ext (Inr (example_request ''settlement'' ''accept'')))
         (SignatureKey (example_request ''settlement'' []))
         (OrderID (example_request ''settlement'' []))
         (StatusCode (example_request ''settlement'' []))
         (GrossAmount (example_request ''settlement'' []))
         (serverKey (example_handler (Inr (example_tasks ORDER_TASK_STATE_SUCCESS))
            (Inr (Some example_order)) (\<lambda>st. True))) = None
   \<and> ToLower (example_ext (Inr (example_request ''settlement'' ''accept'')))
         (TransactionStatus (example_request ''settlement'' [])) \<noteq> PendingTransactionStatus
   \<and> (PaymentType (example_request ''settlement'' [])
         = PaymentMethod_Gopay (example_ext (Inr (example_request ''settlement'' ''accept'')))
       \<or> PaymentType (example_request ''settlement'' [])
         = PaymentMethod_VirtualAccount (example_ext (Inr (example_request ''settlement'' ''accept''))))
   \<and> NewTransaction (example_ext (Inr (example_request ''settlement'' ''accept'')))
         (chargeURL (example_handler (Inr (example_tasks ORDER_TASK_STATE_SUCCESS))
            (Inr (Some example_order)) (\<lambda>st. True)))
         (getStatusURL (example_handler (Inr (example_tasks ORDER_TASK_STATE_SUCCESS))
            (Inr (Some example_order)) (\<lambda>st. True)))
         (serverKey (example_handler (Inr (example_tasks ORDER_TASK_STATE_SUCCESS))
            (Inr (Some example_order)) (\<lambda>st. True)))
       = Inr (example_getter (Inr (example_request ''settlement'' ''accept'')))
   \<and> GetTransactionStatus (example_getter (Inr (example_request ''settlement'' ''accept'')))
         (OrderID (example_request ''settlement'' [])) 0
       = (Inr (example_request ''settlement'' ''accept''), 0)
   \<and> GetOrderTask (taskService (example_handler (Inr (example_tasks ORDER_TASK_STATE_SUCCESS))
            (Inr (Some example_order)) (\<lambda>st. True)))
         (OrderID (example_request ''settlement'' [])) 0
       = (Inr (example_tasks ORDER_TASK_STATE_SUCCESS), 0)
   \<and> State (select_payment_task (example_tasks ORDER_TASK_STATE_SUCCESS))
       = ORDER_TASK_STATE_SUCCESS
   \<and> status_code (HandleTransactionUpdate
         (example_handler (Inr (example_tasks ORDER_TASK_STATE_SUCCESS))
            (Inr (Some example_order)) (\<lambda>st. True))
         (example_ext (Inr (example_request ''settlement'' ''accept'')))
         (example_http ''POST'' (example_request ''settlement'' [])) 0)
       = Some StatusOK
   \<and> updates (HandleTransactionUpdate
         (example_handler (Inr (example_tasks ORDER_TASK_STATE_SUCCESS))
            (Inr (Some example_order)) (\<lambda>st. True))
         (example_ext (Inr (example_request ''settlement'' ''accept'')))
         (example_http ''POST'' (example_request ''settlement'' [])) 0)
       = []"
proof -
  let ?tasks = "example_tasks ORDER_TASK_STATE_SUCCESS"
  let ?h = "example_handler (Inr ?tasks) (Inr (Some example_order)) (\<lambda>st. True)"
  let ?trx = "example_request ''settlement'' ''accept''"
  let ?req = "example_request ''settlement'' []"
  let ?e = "example_ext (Inr ?trx)"
  let ?r = "example_http ''POST'' ?req"
  have h1: "validateHeaders (ContentType ?r) = None"
    by (simp add: example_defs validateHeaders_def)
  have h2: "Body ?r = Some ?req" by (simp add: example_defs)
  have h3: "ValidateCallbackSignature ?e (SignatureKey ?req) (OrderID ?req) (StatusCode ?req)
              (GrossAmount ?req) (serverKey ?h) = None"
    by (simp add: example_defs ValidateCallbackSignature_def)
  have h4: "ToLower ?e (TransactionStatus ?req) \<noteq> PendingTransactionStatus"
    by (simp add: example_defs eval_defs)
  have h5: "PaymentType ?req = PaymentMethod_Gopay ?e
            \<or> PaymentType ?req = PaymentMethod_VirtualAccount ?e"
    by (simp add: example_defs)
  have h6: "NewTransaction ?e (chargeURL ?h) (getStatusURL ?h) (serverKey ?h)
              = Inr (example_getter (Inr ?trx))"
    by (simp add: example_ext_def)
  have h7: "GetTransactionStatus (example_getter (Inr ?trx)) (OrderID ?req) 0 = (Inr ?trx, 0)"
    by (simp add: example_getter_def)
  have h8: "GetOrderTask (taskService ?h) (OrderID ?req) 0 = (Inr ?tasks, 0)"
    by (simp add: example_defs)
  have h9: "State (select_payment_task ?tasks) = ORDER_TASK_STATE_SUCCESS"
    by (simp add: example_defs)
  from C6_already_success_noop[OF h1 h2 h3 h4 h5 h6 h7 h8 h9]
    h1 h2 h3 h4 h5 h6 h7 h8 h9
  show ?thesis by blast
qed

text \<open>
  Claim C7. A notification with valid headers, body and signature whose transaction status
  lower-cases to pending is answered with 200 at once: no status lookup, no task or order
  read, no write; and the run is the same whatever the payment type is.
\<close>

theorem C7_pending_short_circuit:
  assumes "validateHeaders (ContentType r) = None"
    and "Body r = Some req"
    and "ValidateCallbackSignature ext (SignatureKey req) (OrderID req) (StatusCode req)
           (GrossAmount req) (serverKey h) = None"
    and "ToLower ext (TransactionStatus req) = PendingTransactionStatus"
  shows "status_code (HandleTransactionUpdate h ext r w) = Some StatusOK
       \<and> calls (HandleTransactionUpdate h ext r w) = []
       \<and> world (HandleTransactionUpdate h ext r w) = w
       \<and> (\<forall>p. HandleTransactionUpdate h ext (r\<lparr>Body := Some (req\<lparr>PaymentType := p\<rparr>)\<rparr>) w
                = HandleTransactionUpdate h ext r w)"
  using assms
  by (simp add: HandleTransactionUpdate_def HandleTransactionUpdate_guards_def Let_def
      status_code_def writeJSONResponse_def start_calls method_check_Body)

text \<open>
  A pending notification; with an unknown payment type the run is the same.
\<close>

theorem C7_pending_short_circuit_witness:
  "validateHeaders (ContentType (example_http ''POST'' (example_request ''pending'' []))) = None
   \<and> Body (example_http ''POST'' (example_request ''pending'' []))
       = Some (example_request ''pending'' [])
   \<and> ValidateCallbackSignature (example_ext (Inr (example_request ''settlement'' ''accept'')))
         (SignatureKey (example_request ''pending'' []))
         (OrderID (example_request ''pending'' []))
         (StatusCode (example_request ''pending'' []))
         (GrossAmount (example_request ''pending'' []))
         (serverKey example_handler_up) = None
   \<and> ToLower (example_ext (Inr (example_request ''settlement'' ''accept'')))
         (TransactionStatus (example_request ''pending'' [])) = PendingTransactionStatus
   \<and> status_code (HandleTransactionUpdate example_handler_up
         (example_ext (Inr (example_request ''settlement'' ''accept'')))
         (example_http ''POST'' (example_request ''pending'' [])) 0)
       = Some StatusOK
   \<and> calls (HandleTransactionUpdate example_handler_up
         (example_ext (Inr (example_request ''settlement'' ''accept'')))
         (example_http ''POST'' (example_request ''pending'' [])) 0)
       = []
   \<and> HandleTransactionUpdate example_handler_up
         (example_ext (Inr (example_request ''settlement'' ''accept'')))
         ((example_http ''POST'' (example_request ''pending'' []))
            \<lparr>Body := Some ((example_request ''pending'' [])\<lparr>PaymentType := ''unknown-wallet''\<rparr>)\<rparr>) 0
       = HandleTransactionUpdate example_handler_up
         (example_ext (Inr (example_request ''settlement'' ''accept'')))
         (example_http ''POST'' (example_request ''pending'' [])) 0"
proof -
  let ?h = "example_handler_up"
  let ?req = "example_request ''pending'' []"
  let ?e = "example_ext (Inr (example_request ''settlement'' ''accept''))"
  let ?r = "example_http ''POST'' ?req"
  have h1: "validateHeaders (ContentType ?r) = None"
    by (simp add: example_defs validateHeaders_def)
  have h2: "Body ?r = Some ?req" by (simp add: example_defs)
  have h3: "ValidateCallbackSignature ?e (SignatureKey ?req) (OrderID ?req) (StatusCode ?req)
              (GrossAmount ?req) (serverKey ?h) = None"
    by (simp add: example_defs ValidateCallbackSignature_def)
  have h4: "ToLower ?e (TransactionStatus ?req) = PendingTransactionStatus"
    by (simp add: example_defs eval_defs)
  from C7_pending_short_circuit[OF h1 h2 h3 h4, of 0] h1 h2 h3 h4
  show ?thesis by blast
qed



text \<open>
  Claim C9, as the handler implements it. When a request reaches the status classification
  with an authoritative status that, after lower-casing, is outside capture, settlement,
  expire, failure, cancel and deny, no \<^verbatim>\<open>UpdateOrderTask\<close> call is made and the answer is
  200; no call at all follows the lookups, so the world is the one the lookups left.
\<close>

theorem C9_other_status_no_transition:
  assumes "reaches_classification h ext r w trx ot s"
    and "ToLower ext (TransactionStatus trx) \<notin>
           {CaptureTransactionStatus, SettlementTransactionStatus, ExpireTransactionStatus,
            FailureTransactionStatus, CancelTransactionStatus, DenyTransactionStatus}"
  shows "status_code (HandleTransactionUpdate h ext r w) = Some StatusOK
       \<and> updates (HandleTransactionUpdate h ext r w) = []
       \<and> calls (HandleTransactionUpdate h ext r w) = calls s
       \<and> world (HandleTransactionUpdate h ext r w) = world s"
proof -
  from reach_state[OF assms(1)] have "filter is_update (calls s) = []" by auto
  with assms(2) show ?thesis
    by (simp add: handler_at_switch[OF assms(1)] HandleTransactionUpdate_switch_def Let_def
        status_code_def writeJSONResponse_def log_info_def updates_def)
qed

text \<open>
  A notification whose lookup answers refund.
\<close>

theorem C9_other_status_no_transition_witness:
  "reaches_classification example_handler_up
      (example_ext (Inr (example_request ''refund'' [])))
      (example_http ''POST'' (example_request ''settlement'' [])) 0
      (example_request ''refund'' []) example_task example_at_switch
   \<and> ToLower (example_ext (Inr (example_request ''refund'' [])))
         (TransactionStatus (example_request ''refund'' []))
       \<notin> {CaptureTransactionStatus, SettlementTransactionStatus, ExpireTransactionStatus,
          FailureTransactionStatus, CancelTransactionStatus, DenyTransactionStatus}
   \<and> status_code (HandleTransactionUpdate example_handler_up
         (example_ext (Inr (example_request ''refund'' [])))
         (example_http ''POST'' (example_request ''settlement'' [])) 0)
       = Some StatusOK
   \<and> updates (HandleTransactionUpdate example_handler_up
         (example_ext (Inr (example_request ''refund'' [])))
         (example_http ''POST'' (example_request ''settlement'' [])) 0)
       = []"
proof -
  let ?h = "example_handler_up"
  let ?trx = "example_request ''refund'' []"
  let ?e = "example_ext (Inr ?trx)"
  let ?r = "example_http ''POST'' (example_request ''settlement'' [])"
  have a: "reaches_classification ?h ?e ?r 0 ?trx example_task example_at_switch"
    by (simp add: example_defs eval_defs)
  have b: "ToLower ?e (TransactionStatus ?trx)
       \<notin> {CaptureTransactionStatus, SettlementTransactionStatus, ExpireTransactionStatus,
          FailureTransactionStatus, CancelTransactionStatus, DenyTransactionStatus}"
    by (simp add: example_defs eval_defs)
  from C9_other_status_no_transition[OF a b] a b show ?thesis by blast
qed

text \<open>
  A lookup that answers \<open>EXPIRE\<close> in upper case: the status is none of the six strings, yet
  the switch compares the lower-cased status, so the task is moved to FAILED.
\<close>

theorem C9_counterexample:
  "reaches_classification example_handler_up
      (example_ext (Inr (example_request ''EXPIRE'' [])))
      (example_http ''POST'' (example_request ''settlement'' [])) 0
      (example_request ''EXPIRE'' []) example_task example_at_switch
   \<and> TransactionStatus (example_request ''EXPIRE'' [])
       \<notin> {CaptureTransactionStatus, SettlementTransactionStatus, ExpireTransactionStatus,
          FailureTransactionStatus, CancelTransactionStatus, DenyTransactionStatus}
   \<and> updates (HandleTransactionUpdate example_handler_up
         (example_ext (Inr (example_request ''EXPIRE'' [])))
         (example_http ''POST'' (example_request ''settlement'' [])) 0)
       = [CallUpdateOrderTask ''T1'' ORDER_TASK_STATE_FAILED]
   \<and> updates (HandleTransactionUpdate example_handler_up
         (example_ext (Inr (example_request ''EXPIRE'' [])))
         (example_http ''POST'' (example_request ''settlement'' [])) 0)
       \<noteq> []
   \<and> world (HandleTransactionUpdate example_handler_up
         (example_ext (Inr (example_request ''EXPIRE'' [])))
         (example_http ''POST'' (example_request ''settlement'' [])) 0)
       = 1"
  by (simp add: example_defs eval_defs_lower)

text \<open>
  Claim C10. The method check does not reject: a request with a method other than POST is
  handled exactly as the same request sent with POST, with the same answer, the same calls
  with the same outcomes and the same final world; the only difference is one more error
  entry at the head of the log.
\<close>

theorem C10_method_not_enforced:
  assumes "Method r \<noteq> MethodPost"
  shows "HandleTransactionUpdate h ext r w
       = (HandleTransactionUpdate h ext (r\<lparr>Method := MethodPost\<rparr>) w)
           \<lparr>logs := LogErr (Errorf (''expecting http method post, got: '' @ Method r)) []
                     # logs (HandleTransactionUpdate h ext (r\<lparr>Method := MethodPost\<rparr>) w)\<rparr>"
proof -
  let ?l = "LogErr (Errorf (''expecting http method post, got: '' @ Method r)) []"
  have a: "method_check r (init_run w) = prepend_log ?l (init_run w)"
    using assms by (simp add: method_check_def log_err_def prepend_log_def init_run_def)
  have b: "method_check (r\<lparr>Method := MethodPost\<rparr>) (init_run w) = init_run w"
    by (simp add: method_check_def)
  have "HandleTransactionUpdate h ext r w
          = prepend_log ?l (HandleTransactionUpdate h ext (r\<lparr>Method := MethodPost\<rparr>) w)"
    unfolding HandleTransactionUpdate_def a b guards_Method guards_prepend
    by (simp add: switch_prepend split: sum.split prod.split)
  then show ?thesis by (simp add: prepend_log_def)
qed

text \<open>
  The settlement notification sent with GET: the same four calls are made.
\<close>

theorem C10_method_not_enforced_witness:
  "Method (example_http ''GET'' (example_request ''settlement'' [])) \<noteq> MethodPost
   \<and> HandleTransactionUpdate example_handler_up
         (example_ext (Inr (example_request ''settlement'' ''accept'')))
         (example_http ''GET'' (example_request ''settlement'' [])) 0
     = (HandleTransactionUpdate example_handler_up
         (example_ext (Inr (example_request ''settlement'' ''accept'')))
         ((example_http ''GET'' (example_request ''settlement'' []))\<lparr>Method := MethodPost\<rparr>) 0)
       \<lparr>logs := LogErr (Errorf (''expecting http method post, got: ''
                                   @ Method (example_http ''GET'' (example_request ''settlement'' []))))
                        []
                 # logs (HandleTransactionUpdate example_handler_up
                          (example_ext (Inr (example_request ''settlement'' ''accept'')))
                          ((example_http ''GET'' (example_request ''settlement'' []))
                             \<lparr>Method := MethodPost\<rparr>) 0)\<rparr>
   \<and> calls (HandleTransactionUpdate example_handler_up
         (example_ext (Inr (example_request ''settlement'' ''accept'')))
         (example_http ''GET'' (example_request ''settlement'' [])) 0)
     = [CallGetTransactionStatus ''T1'', CallGetOrderTask ''T1'', CallGet ''O1'',
        CallUpdateOrderTask ''T1'' ORDER_TASK_STATE_SUCCESS]"
proof -
  let ?r = "example_http ''GET'' (example_request ''settlement'' [])"
  have a: "Method ?r \<noteq> MethodPost"
    by (simp add: example_defs MethodPost_def)
  have b: "calls (HandleTransactionUpdate example_handler_up
         (example_ext (Inr (example_request ''settlement'' ''accept''))) ?r 0)
     = [CallGetTransactionStatus ''T1'', CallGetOrderTask ''T1'', CallGet ''O1'',
        CallUpdateOrderTask ''T1'' ORDER_TASK_STATE_SUCCESS]"
    by (simp add: example_defs eval_defs)
  from C10_method_not_enforced[OF a, of example_handler_up
      "example_ext (Inr (example_request ''settlement'' ''accept''))" 0] a b
  show ?thesis by blast
qed

end
